theory Spec2Isabelle
  imports Complex_Main "HOL-Library.Word"
begin

unbundle bit_operations_syntax

section \<open>UTMConverter: telemetry log to flight-logging track\<close>

text \<open>
  A shallow embedding of \<^verbatim>\<open>src/custom/src/UTMConverter.cc\<close>. The member functions of the
  class become functions on a record of its data members; the file, the wall clock,
  the link manager and the MAVLink parser, which the class only calls, are inputs
  collected in a record \<open>world\<close>.
\<close>

subsection \<open>Floating-point values\<close>

text \<open>
  A C++ \<^verbatim>\<open>double\<close> (and the \<^verbatim>\<open>float\<close> of the wire format, which converts to it
  exactly) is a finite number, an infinity or not-a-number. Finite values are kept as
  exact reals: rounding to 53 bits is not modelled, and the two zeros are one value
  (they compare equal in C++). The quotients the converter forms from 32-bit integers
  are distinct for distinct integers with and without rounding, so the comparisons of
  \<open>compareItem\<close> agree with the program's.
\<close>

datatype double = NaN | PInf | NInf | Num real

definition qIsNaN :: "double \<Rightarrow> bool" where
  "qIsNaN d = (d = NaN)"

text \<open>The operator \<^verbatim>\<open>!=\<close> of C++ on two doubles: true whenever an operand is not-a-number.\<close>

definition ne_double :: "double \<Rightarrow> double \<Rightarrow> bool" where
  "ne_double a b = (a = NaN \<or> b = NaN \<or> a \<noteq> b)"

text \<open>\<^verbatim>\<open>x / d\<close> for a signed 32-bit \<open>x\<close> and a positive double constant \<open>d\<close>.\<close>

definition int32_div :: "32 word \<Rightarrow> real \<Rightarrow> double" where
  "int32_div x d = Num (real_of_int (sint x) / d)"

text \<open>\<^verbatim>\<open>x / d\<close> for an unsigned 64-bit \<open>x\<close>.\<close>

definition quint64_div :: "64 word \<Rightarrow> real \<Rightarrow> double" where
  "quint64_div x d = Num (real (unat x) / d)"

subsection \<open>Data\<close>

text \<open>
  Modelled from the spec: the header \<^verbatim>\<open>UTMConverter.h\<close> is not among the sources. The
  fields of \<^verbatim>\<open>UTM_LogItem\<close> are the five the code assigns and prints, floating-point
  as the spec's TrackSample has them; the two timestamps are unsigned 64-bit as the
  spec's RawTimestamp; the channel is an integer tested against zero.
\<close>

record UTM_LogItem =
  time :: double
  lon :: double
  lat :: double
  alt :: double
  speed :: double

record UTMConverter =
  curTimeUSecs :: "64 word"
  startDTG :: "64 word"
  lastSpeed :: double
  gpsRawIntMessageAvailable :: bool
  globalPositionIntMessageAvailable :: bool
  mavlinkChannel :: int
  logItems :: "UTM_LogItem list"

text \<open>The constructor's member initialisers; the item vector starts empty.\<close>

definition UTMConverter_new :: UTMConverter where
  "UTMConverter_new =
     \<lparr>curTimeUSecs = 0, startDTG = 0, lastSpeed = Num 0,
      gpsRawIntMessageAvailable = False, globalPositionIntMessageAvailable = False,
      mavlinkChannel = 0, logItems = []\<rparr>"

text \<open>
  The payloads of the three MAVLink messages the converter decodes, with the fields it
  reads (and the longitude of the raw fix, which it does not read). The wire format
  has the coordinates and altitudes as \<^verbatim>\<open>int32_t\<close>, the fix type as \<^verbatim>\<open>uint8_t\<close> and
  the ground speed as \<^verbatim>\<open>float\<close>.
\<close>

record mavlink_gps_raw_int_t =
  gps_lat :: "32 word"
  gps_lon :: "32 word"
  gps_alt :: "32 word"
  fix_type :: "8 word"

record mavlink_global_position_int_t =
  pos_lat :: "32 word"
  pos_lon :: "32 word"
  pos_alt :: "32 word"

record mavlink_vfr_hud_t =
  groundspeed :: double

text \<open>
  A decoded \<^verbatim>\<open>mavlink_message_t\<close>: its \<^verbatim>\<open>msgid\<close> is the constructor, and the argument is
  what the matching \<^verbatim>\<open>mavlink_msg_..._decode\<close> yields. Every other message id is \<open>OTHER\<close>.
\<close>

datatype mavlink_message_t =
    GPS_RAW_INT mavlink_gps_raw_int_t
  | GLOBAL_POSITION_INT mavlink_global_position_int_t
  | VFR_HUD mavlink_vfr_hud_t
  | OTHER

definition GPS_FIX_TYPE_3D_FIX :: "8 word" where
  "GPS_FIX_TYPE_3D_FIX = 3"

subsection \<open>Timestamps\<close>

text \<open>Eight bytes read as one number, the first byte the most significant.\<close>

definition be64 :: "8 word list \<Rightarrow> 64 word" where
  "be64 bs = foldl (\<lambda>acc b. push_bit 8 acc OR ucast b) 0 bs"

text \<open>Qt's \<^verbatim>\<open>qbswap\<close> on a \<^verbatim>\<open>quint64\<close>: each byte masked out and shifted to its mirror place.\<close>

definition qbswap :: "64 word \<Rightarrow> 64 word" where
  "qbswap source = 0
     OR push_bit 56 (source AND 0x00000000000000ff)
     OR push_bit 40 (source AND 0x000000000000ff00)
     OR push_bit 24 (source AND 0x0000000000ff0000)
     OR push_bit 8  (source AND 0x00000000ff000000)
     OR drop_bit 8  (source AND 0x000000ff00000000)
     OR drop_bit 24 (source AND 0x0000ff0000000000)
     OR drop_bit 40 (source AND 0x00ff000000000000)
     OR drop_bit 56 (source AND 0xff00000000000000)"

text \<open>
  \<^verbatim>\<open>*((quint64*)p)\<close> loads eight bytes in the order of the host: on a little-endian
  host the first byte is the least significant. \<^verbatim>\<open>qFromBigEndian\<close> swaps on such a
  host and is the identity on a big-endian one.
\<close>

definition load_quint64 :: "bool \<Rightarrow> 8 word list \<Rightarrow> 64 word" where
  "load_quint64 littleEndian mem = (if littleEndian then be64 (rev mem) else be64 mem)"

definition qFromBigEndian :: "bool \<Rightarrow> 64 word \<Rightarrow> 64 word" where
  "qFromBigEndian littleEndian x = (if littleEndian then qbswap x else x)"

text \<open>
  The eight bytes at \<^verbatim>\<open>bytes.constData()\<close>. The load does not look at the array's size:
  where the array is shorter than eight bytes it reads what lies past it, which is the
  parameter \<open>past\<close> (offset to byte).
\<close>

definition constData8 :: "(nat \<Rightarrow> 8 word) \<Rightarrow> 8 word list \<Rightarrow> 8 word list" where
  "constData8 past bytes =
     take 8 (bytes @ [past 0, past 1, past 2, past 3, past 4, past 5, past 6, past 7])"

text \<open>\<open>msecs\<close> is what \<^verbatim>\<open>QDateTime::currentMSecsSinceEpoch()\<close> returns, cast to \<^verbatim>\<open>quint64\<close>.\<close>

definition parseTimestamp ::
  "bool \<Rightarrow> 64 word \<Rightarrow> (nat \<Rightarrow> 8 word) \<Rightarrow> 8 word list \<Rightarrow> 64 word" where
  "parseTimestamp littleEndian msecs past bytes =
     (let timestamp = qFromBigEndian littleEndian (load_quint64 littleEndian (constData8 past bytes));
          currentTimestamp = msecs * 1000
      in if timestamp > currentTimestamp then qbswap timestamp else timestamp)"

subsection \<open>The interpreter\<close>

definition compareItem :: "UTM_LogItem \<Rightarrow> UTM_LogItem \<Rightarrow> bool" where
  "compareItem logItem1 logItem2 =
     (if ne_double (lon logItem1) (lon logItem2) then False
      else if ne_double (lat logItem1) (lat logItem2) then False
      else if ne_double (alt logItem1) (alt logItem2) then False
      else if ne_double (speed logItem1) (speed logItem2) then False
      else True)"

definition handleGpsRawInt :: "UTMConverter \<Rightarrow> mavlink_gps_raw_int_t \<Rightarrow> UTMConverter" where
  "handleGpsRawInt c0 gpsRawInt =
     (let c = c0\<lparr>gpsRawIntMessageAvailable := True\<rparr> in
      if \<not> globalPositionIntMessageAvailable c then
        if GPS_FIX_TYPE_3D_FIX \<le> fix_type gpsRawInt then
          (let logItem =
                 \<lparr>time = quint64_div (curTimeUSecs c - startDTG c) 1000000,
                  lon = int32_div (gps_lat gpsRawInt) 10000000,
                  lat = int32_div (gps_lat gpsRawInt) 10000000,
                  alt = int32_div (gps_alt gpsRawInt) 1000,
                  speed = lastSpeed c\<rparr>
           in if logItems c \<noteq> [] then
                if \<not> compareItem (last (logItems c)) logItem
                then c\<lparr>logItems := logItems c @ [logItem]\<rparr>
                else c
              else c\<lparr>logItems := logItems c @ [logItem]\<rparr>)
        else c
      else c)"

definition handleVfrHud :: "UTMConverter \<Rightarrow> mavlink_vfr_hud_t \<Rightarrow> UTMConverter" where
  "handleVfrHud c vfrHud =
     c\<lparr>lastSpeed := (if qIsNaN (groundspeed vfrHud) then Num 0 else groundspeed vfrHud)\<rparr>"

definition handleGlobalPositionInt ::
  "UTMConverter \<Rightarrow> mavlink_global_position_int_t \<Rightarrow> UTMConverter" where
  "handleGlobalPositionInt c0 globalPositionInt =
     (let c = c0\<lparr>globalPositionIntMessageAvailable := True\<rparr>;
          logItem =
            \<lparr>time = quint64_div (curTimeUSecs c - startDTG c) 1000000,
             lon = int32_div (pos_lon globalPositionInt) 10000000,
             lat = int32_div (pos_lat globalPositionInt) 10000000,
             alt = int32_div (pos_alt globalPositionInt) 1000,
             speed = lastSpeed c\<rparr>
      in if logItems c \<noteq> [] then
           if \<not> compareItem (last (logItems c)) logItem
           then c\<lparr>logItems := logItems c @ [logItem]\<rparr>
           else c
         else c\<lparr>logItems := logItems c @ [logItem]\<rparr>)"

definition newMavlinkMessage ::
  "UTMConverter \<Rightarrow> 64 word \<Rightarrow> mavlink_message_t \<Rightarrow> UTMConverter" where
  "newMavlinkMessage c0 curTime message =
     (let c1 = (if startDTG c0 = 0 then c0\<lparr>startDTG := curTime\<rparr> else c0);
          c = c1\<lparr>curTimeUSecs := curTime\<rparr>
      in case message of
           GPS_RAW_INT gpsRawInt \<Rightarrow> handleGpsRawInt c gpsRawInt
         | GLOBAL_POSITION_INT globalPositionInt \<Rightarrow> handleGlobalPositionInt c globalPositionInt
         | VFR_HUD vfrHud \<Rightarrow> handleVfrHud c vfrHud
         | OTHER \<Rightarrow> c)"

text \<open>
  The interpreter run over a sequence of messages, each with the timestamp the read
  loop hands to it.
\<close>

fun newMavlinkMessages ::
  "UTMConverter \<Rightarrow> (64 word \<times> mavlink_message_t) list \<Rightarrow> UTMConverter" where
  "newMavlinkMessages c [] = c"
| "newMavlinkMessages c ((t, message) # rest) =
     newMavlinkMessages (newMavlinkMessage c t message) rest"

subsection \<open>The world around the converter\<close>

text \<open>
  What the converter calls and does not define: the link manager's channel reservation
  (zero when no channel is left), the files by name (the bytes of a readable source,
  whether a destination can be created, whether a write stores anything), the byte order
  of the host, the wall clock (its \<open>k\<close>-th reading during a conversion, in
  milliseconds), the memory past a short byte array (at the \<open>k\<close>-th reading) and the
  MAVLink parser, which takes one byte at a time and now and then completes a message.
\<close>

record 'p world =
  reserveMavlinkChannel :: int
  readable :: "string \<Rightarrow> 8 word list option"
  creatable :: "string \<Rightarrow> bool"
  writeFault :: bool
  littleEndianHost :: bool
  currentMSecsSinceEpoch :: "nat \<Rightarrow> 64 word"
  pastTheArray :: "nat \<Rightarrow> nat \<Rightarrow> 8 word"
  mavlink_parse_char :: "'p \<Rightarrow> 8 word \<Rightarrow> 'p \<times> mavlink_message_t option"

text \<open>What the converter writes to the destination, piece by piece.\<close>

datatype chunk =
    LoggingHeader
  | LoggingItem UTM_LogItem bool
  | LoggingKeys
  | LoggingStartDTG "64 word"
  | LoggingFooter string

text \<open>The effects of a conversion on the two files, in the order they happen.\<close>

datatype file_op = SrcOpen | SrcClose | DstOpen | DstWrite chunk | DstClose | DstRemove

subsection \<open>Reading the log\<close>

text \<open>
  \<^verbatim>\<open>_parseTimestamp(_logFile.read(TIMESTAMP_SIZE))\<close>: the read returns the next eight
  bytes of the file, or as many as are left.
\<close>

definition readTimestamp :: "'p world \<Rightarrow> nat \<Rightarrow> 8 word list \<Rightarrow> 64 word" where
  "readTimestamp W k logFile =
     parseTimestamp (littleEndianHost W) (currentMSecsSinceEpoch W k) (pastTheArray W k)
       (take 8 logFile)"

text \<open>
  The result is the returned timestamp, the message the parser completed (the
  out-parameter), the parser's state, the count of clock readings and the rest of
  the file.
\<close>

fun readNextMavlinkMessage ::
  "'p world \<Rightarrow> 'p \<Rightarrow> nat \<Rightarrow> 8 word list
     \<Rightarrow> 64 word \<times> mavlink_message_t option \<times> 'p \<times> nat \<times> 8 word list" where
  "readNextMavlinkMessage W ps k [] = (0, None, ps, k, [])"
| "readNextMavlinkMessage W ps k (nextByte # logFile) =
     (case mavlink_parse_char W ps nextByte of
        (ps', Some message) \<Rightarrow>
          (readTimestamp W k logFile, Some message, ps', Suc k, drop 8 logFile)
      | (ps', None) \<Rightarrow> readNextMavlinkMessage W ps' k logFile)"

lemma readNext_shorter:
  "readNextMavlinkMessage W ps k f = (t, Some m, ps', k', f') \<Longrightarrow> length f' < length f"
proof (induction f arbitrary: ps)
  case Nil
  then show ?case by simp
next
  case (Cons b f)
  show ?case
  proof (cases "mavlink_parse_char W ps b")
    case (Pair ps1 r)
    show ?thesis
    proof (cases r)
      case None
      with Pair Cons.prems have "readNextMavlinkMessage W ps1 k f = (t, Some m, ps', k', f')"
        by simp
      from Cons.IH [OF this] show ?thesis by simp
    next
      case (Some a)
      with Pair Cons.prems show ?thesis by auto
    qed
  qed
qed

text \<open>
  The loop of \<^verbatim>\<open>convertTelemetryFile\<close>. A non-zero timestamp is only ever returned
  together with a message, so the branch for \<open>None\<close> is never taken.
\<close>

function parseLog ::
  "'p world \<Rightarrow> UTMConverter \<Rightarrow> 'p \<Rightarrow> nat \<Rightarrow> 8 word list \<Rightarrow> UTMConverter \<times> 'p" where
  "parseLog W c ps k logFile =
     (case readNextMavlinkMessage W ps k logFile of
        (nextTimeUSecs, message, ps', k', logFile') \<Rightarrow>
          if nextTimeUSecs = 0 then (c, ps')
          else (case message of
                  None \<Rightarrow> (c, ps')
                | Some m \<Rightarrow>
                    parseLog W
                      ((newMavlinkMessage c (curTimeUSecs c) m)\<lparr>curTimeUSecs := nextTimeUSecs\<rparr>)
                      ps' k' logFile'))"
  by pat_completeness auto
termination
  by (relation "measure (\<lambda>(W, c, ps, k, logFile). length logFile)")
     (auto dest: readNext_shorter [OF sym])

declare parseLog.simps [simp del]

subsection \<open>The conversion\<close>

definition dstWrite :: "'p world \<Rightarrow> chunk \<Rightarrow> file_op list" where
  "dstWrite W data = (if writeFault W then [] else [DstWrite data])"

definition writeItems :: "'p world \<Rightarrow> UTM_LogItem list \<Rightarrow> file_op list" where
  "writeItems W items =
     concat (map (\<lambda>i. dstWrite W (LoggingItem (items ! i) (i < length items - 1)))
               [0..<length items])"

text \<open>
  The result is the returned flag, the converter's members and the parser's state
  after the call, and the effects on the files.
\<close>

definition convertTelemetryFile ::
  "'p world \<Rightarrow> UTMConverter \<Rightarrow> 'p \<Rightarrow> string \<Rightarrow> string
     \<Rightarrow> bool \<times> UTMConverter \<times> 'p \<times> file_op list" where
  "convertTelemetryFile W c0 ps srcFilename dstFilename =
     (let c1 = (if mavlinkChannel c0 = 0
                then c0\<lparr>mavlinkChannel := reserveMavlinkChannel W\<rparr> else c0)
      in if mavlinkChannel c1 = 0 then (False, c1, ps, [])
         else case readable W srcFilename of
           None \<Rightarrow> (False, c1, ps, [])
         | Some logFile \<Rightarrow>
             if \<not> creatable W dstFilename then (False, c1, ps, [SrcOpen, SrcClose])
             else
               (let c2 = c1\<lparr>curTimeUSecs := readTimestamp W 0 logFile\<rparr>;
                    (c, ps') = parseLog W c2 ps 1 (drop 8 logFile);
                    written =
                      (if logItems c \<noteq> [] then
                         dstWrite W LoggingHeader
                         @ writeItems W (logItems c)
                         @ dstWrite W LoggingKeys
                         @ dstWrite W (LoggingStartDTG (startDTG c div 1000))
                         @ dstWrite W (LoggingFooter dstFilename)
                       else []);
                    removed = (if logItems c = [] then [DstRemove] else [])
                in (True, c, ps', [SrcOpen, DstOpen] @ written @ [DstClose] @ removed)))"

subsection \<open>Predicates on tracks\<close>

text \<open>No field that \<open>compareItem\<close> looks at is not-a-number.\<close>

definition item_no_nan :: "UTM_LogItem \<Rightarrow> bool" where
  "item_no_nan x = (lon x \<noteq> NaN \<and> lat x \<noteq> NaN \<and> alt x \<noteq> NaN \<and> speed x \<noteq> NaN)"

text \<open>No item compares equal to the one before it.\<close>

definition adjacent_differ :: "UTM_LogItem list \<Rightarrow> bool" where
  "adjacent_differ xs = (\<forall>i. Suc i < length xs \<longrightarrow> \<not> compareItem (xs ! i) (xs ! Suc i))"

definition track_inv :: "UTMConverter \<Rightarrow> bool" where
  "track_inv c =
     (lastSpeed c \<noteq> NaN \<and> list_all item_no_nan (logItems c) \<and> adjacent_differ (logItems c))"

text \<open>Whether a message is a \<^verbatim>\<open>GLOBAL_POSITION_INT\<close>.\<close>

fun is_global_position :: "mavlink_message_t \<Rightarrow> bool" where
  "is_global_position (GLOBAL_POSITION_INT p) = True"
| "is_global_position m = False"

subsection \<open>A small world to run the conversion in\<close>

text \<open>
  A parser that completes a message with every byte: byte 1 is a global position,
  byte 2 a HUD message with ground speed 5.5, any other byte a message the converter
  ignores. The host is little-endian, the clock stands at 1700000000000 ms, the memory
  past a short array is zero, and the only files are a readable \<open>in.tlog\<close> and a
  creatable \<open>out.json\<close>.
\<close>

definition byte_message :: "8 word \<Rightarrow> mavlink_message_t" where
  "byte_message b =
     (if b = 1 then GLOBAL_POSITION_INT \<lparr>pos_lat = 377654320, pos_lon = - 1223456780, pos_alt = 100000\<rparr>
      else if b = 2 then VFR_HUD \<lparr>groundspeed = Num 5.5\<rparr>
      else OTHER)"

definition example_world :: "8 word list \<Rightarrow> int \<Rightarrow> bool \<Rightarrow> unit world" where
  "example_world logFile channel fault =
     \<lparr>reserveMavlinkChannel = channel,
      readable = (\<lambda>name. if name = ''in.tlog'' then Some logFile else None),
      creatable = (\<lambda>name. name = ''out.json''),
      writeFault = fault,
      littleEndianHost = True,
      currentMSecsSinceEpoch = (\<lambda>k. 1700000000000),
      pastTheArray = (\<lambda>k i. 0),
      mavlink_parse_char = (\<lambda>ps b. (ps, Some (byte_message b)))\<rparr>"

section \<open>Properties\<close>

subsection \<open>Byte order\<close>

lemma byte_mask_1: "(0xff :: 64 word) = mask 8"
  by (simp add: mask_eq_exp_minus_1)

lemma byte_mask_2: "(0xff00 :: 64 word) = push_bit 8 (mask 8)"
  by (simp add: mask_eq_exp_minus_1)

lemma byte_mask_3: "(0xff0000 :: 64 word) = push_bit 16 (mask 8)"
  by (simp add: mask_eq_exp_minus_1)

lemma byte_mask_4: "(0xff000000 :: 64 word) = push_bit 24 (mask 8)"
  by (simp add: mask_eq_exp_minus_1)

lemma byte_mask_5: "(0xff00000000 :: 64 word) = push_bit 32 (mask 8)"
  by (simp add: mask_eq_exp_minus_1)

lemma byte_mask_6: "(0xff0000000000 :: 64 word) = push_bit 40 (mask 8)"
  by (simp add: mask_eq_exp_minus_1)

lemma byte_mask_7: "(0xff000000000000 :: 64 word) = push_bit 48 (mask 8)"
  by (simp add: mask_eq_exp_minus_1)

lemma byte_mask_8: "(0xff00000000000000 :: 64 word) = push_bit 56 (mask 8)"
  by (simp add: mask_eq_exp_minus_1)

lemma byte_high_bits: "8 \<le> k \<Longrightarrow> bit (b::8 word) k = False"
  by (auto dest: bit_imp_le_length)

text \<open>Bit \<open>8 * k + m\<close> of either side is bit \<open>m\<close> of the byte at place \<open>k\<close> from the right.\<close>

lemma qbswap_be64:
  "qbswap (be64 [b0, b1, b2, b3, b4, b5, b6, b7]) = be64 [b7, b6, b5, b4, b3, b2, b1, b0]"
proof (rule bit_word_eqI)
  fix n :: nat
  assume "n < LENGTH(64)"
  then have "n = 8 * (n div 8) + n mod 8" "n mod 8 < 8" "n div 8 < 8"
    by simp_all
  then obtain k m where n: "n = 8 * k + m" and m: "m < 8" and "k < 8"
    by blast
  then consider "k = 0" | "k = 1" | "k = 2" | "k = 3" | "k = 4" | "k = 5" | "k = 6" | "k = 7"
    by linarith
  then show "bit (qbswap (be64 [b0, b1, b2, b3, b4, b5, b6, b7])) n
           = bit (be64 [b7, b6, b5, b4, b3, b2, b1, b0]) n"
    unfolding qbswap_def be64_def byte_mask_1 byte_mask_2 byte_mask_3 byte_mask_4
      byte_mask_5 byte_mask_6 byte_mask_7 byte_mask_8
    using m by cases (simp_all add: n bit_simps byte_high_bits)
qed

lemma length_8_explicit:
  assumes "length (bs :: 'a list) = 8"
  obtains b0 b1 b2 b3 b4 b5 b6 b7 where "bs = [b0, b1, b2, b3, b4, b5, b6, b7]"
proof -
  from assms have "\<exists>b0 b1 b2 b3 b4 b5 b6 b7. bs = [b0, b1, b2, b3, b4, b5, b6, b7]"
    by (simp add: eval_nat_numeral length_Suc_conv) blast
  with that show thesis by blast
qed

lemma qbswap_be64_rev: "length bs = 8 \<Longrightarrow> qbswap (be64 bs) = be64 (rev bs)"
  by (erule length_8_explicit) (simp add: qbswap_be64)

lemma constData8_full: "length bytes = 8 \<Longrightarrow> constData8 past bytes = bytes"
  by (simp add: constData8_def)

text \<open>On either kind of host the load followed by \<^verbatim>\<open>qFromBigEndian\<close> reads big-endian.\<close>

lemma load_big_endian:
  "length mem = 8 \<Longrightarrow> qFromBigEndian le (load_quint64 le mem) = be64 mem"
  by (simp add: qFromBigEndian_def load_quint64_def qbswap_be64_rev)

text \<open>
  C4. For every array of eight bytes, \<open>parseTimestamp\<close> reads the bytes as a big-endian
  unsigned 64-bit number \<open>t\<close>, compares it with the clock's milliseconds times 1000,
  and returns the number with its bytes reversed when \<open>t\<close> is greater, and \<open>t\<close>
  otherwise: whatever the host's byte order, and without reading past the array. The
  product is the clock in microseconds as long as it fits 64 bits.
\<close>

theorem parseTimestamp_big_endian_or_swapped:
  assumes "length bytes = 8"
  shows "parseTimestamp littleEndian msecs past bytes
         = (if be64 bytes > msecs * 1000 then be64 (rev bytes) else be64 bytes)
       \<and> (unat msecs * 1000 < 2 ^ 64 \<longrightarrow>
            (be64 bytes > msecs * 1000) = (unat (be64 bytes) > unat msecs * 1000))"
proof -
  have "unat (msecs * 1000) = unat msecs * 1000" if "unat msecs * 1000 < 2 ^ 64"
    using that by (simp add: unat_word_ariths)
  then have "(be64 bytes > msecs * 1000) = (unat (be64 bytes) > unat msecs * 1000)"
    if "unat msecs * 1000 < 2 ^ 64"
    using that by (simp add: word_less_nat_alt)
  then show ?thesis
    using assms
    by (simp add: parseTimestamp_def Let_def constData8_full load_big_endian qbswap_be64_rev)
qed

text \<open>
  A timestamp of November 2022 stored big-endian is returned as it is; stored
  little-endian it reads as a time in the future and is returned swapped.
\<close>

theorem parseTimestamp_big_endian_or_swapped_witness:
  "parseTimestamp True 1700000000000 (\<lambda>i. 0) [0, 5, 0xE0, 0xF3, 0x6D, 0x3C, 0xB0, 0]
     = 0x0005E0F36D3CB000
   \<and> parseTimestamp False 1700000000000 (\<lambda>i. 0) [0, 0xB0, 0x3C, 0x6D, 0xF3, 0xE0, 5, 0]
     = 0x0005E0F36D3CB000"
  using
    parseTimestamp_big_endian_or_swapped
      [of "[0, 5, 0xE0, 0xF3, 0x6D, 0x3C, 0xB0, 0]" True 1700000000000 "\<lambda>i. 0"]
    parseTimestamp_big_endian_or_swapped
      [of "[0, 0xB0, 0x3C, 0x6D, 0xF3, 0xE0, 5, 0]" False 1700000000000 "\<lambda>i. 0"]
  by (simp add: be64_def)

subsection \<open>Single messages\<close>

lemma flag_after_global_position:
  "globalPositionIntMessageAvailable (newMavlinkMessage c t (GLOBAL_POSITION_INT p))"
  by (simp add: newMavlinkMessage_def handleGlobalPositionInt_def Let_def)

lemma flag_newMavlinkMessage:
  "globalPositionIntMessageAvailable (newMavlinkMessage c t m)
   = (globalPositionIntMessageAvailable c \<or> is_global_position m)"
  by (cases m)
     (simp_all add: newMavlinkMessage_def handleGlobalPositionInt_def handleGpsRawInt_def
        handleVfrHud_def Let_def)

lemma flag_newMavlinkMessages:
  "globalPositionIntMessageAvailable (newMavlinkMessages c msgs)
   = (globalPositionIntMessageAvailable c \<or> (\<exists>x \<in> set msgs. is_global_position (snd x)))"
  by (induction c msgs rule: newMavlinkMessages.induct) (auto simp: flag_newMavlinkMessage)

lemma gps_raw_suppressed:
  "globalPositionIntMessageAvailable c \<Longrightarrow>
   logItems (newMavlinkMessage c t (GPS_RAW_INT g)) = logItems c"
  by (simp add: newMavlinkMessage_def handleGpsRawInt_def Let_def)

lemma gps_raw_appends_candidate:
  assumes "\<not> globalPositionIntMessageAvailable c" and "3 \<le> unat (fix_type g)"
  shows "logItems (newMavlinkMessage c t (GPS_RAW_INT g)) =
     (let start = (if startDTG c = 0 then t else startDTG c);
          candidate =
            \<lparr>time = Num (real (unat (t - start)) / 1000000),
             lon = Num (real_of_int (sint (gps_lat g)) / 10000000),
             lat = Num (real_of_int (sint (gps_lat g)) / 10000000),
             alt = Num (real_of_int (sint (gps_alt g)) / 1000),
             speed = lastSpeed c\<rparr>
      in if logItems c \<noteq> [] \<and> compareItem (last (logItems c)) candidate
         then logItems c else logItems c @ [candidate])"
proof -
  from assms(2) have "GPS_FIX_TYPE_3D_FIX \<le> fix_type g"
    by (simp add: GPS_FIX_TYPE_3D_FIX_def word_le_nat_alt)
  with assms(1) show ?thesis
    by (simp add: newMavlinkMessage_def handleGpsRawInt_def Let_def int32_div_def quint64_div_def)
qed

text \<open>
  C1. Let \<open>c\<close> be the converter after any sequence of messages with no
  \<^verbatim>\<open>GLOBAL_POSITION_INT\<close> among them. A \<^verbatim>\<open>GPS_RAW_INT\<close> with a fix type of at least 3
  (3D fix), processed at time \<open>t\<close>, builds the candidate item whose \<open>lon\<close> and \<open>lat\<close>
  are both the fix's latitude divided by 1e7, whose \<open>alt\<close> is the fix's altitude
  divided by 1000, whose \<open>time\<close> is \<open>t\<close> minus the start timestamp, divided by 1e6,
  and whose \<open>speed\<close> is the last speed; the candidate is appended unless it compares
  equal to the last item. The fix's longitude is not used.
\<close>

theorem gps_raw_candidate_uses_latitude_twice:
  assumes "c = newMavlinkMessages UTMConverter_new msgs"
    and "\<forall>x \<in> set msgs. \<not> is_global_position (snd x)"
    and "3 \<le> unat (fix_type g)"
  shows "logItems (newMavlinkMessage c t (GPS_RAW_INT g)) =
     (let start = (if startDTG c = 0 then t else startDTG c);
          candidate =
            \<lparr>time = Num (real (unat (t - start)) / 1000000),
             lon = Num (real_of_int (sint (gps_lat g)) / 10000000),
             lat = Num (real_of_int (sint (gps_lat g)) / 10000000),
             alt = Num (real_of_int (sint (gps_alt g)) / 1000),
             speed = lastSpeed c\<rparr>
      in if logItems c \<noteq> [] \<and> compareItem (last (logItems c)) candidate
         then logItems c else logItems c @ [candidate])"
proof -
  have "\<not> globalPositionIntMessageAvailable c"
    using assms(1,2) by (simp add: flag_newMavlinkMessages UTMConverter_new_def)
  then show ?thesis
    using assms(3) by (rule gps_raw_appends_candidate)
qed

text \<open>
  After a HUD message with ground speed 2 at time 1000000, a raw fix at time 3000000
  with latitude 377654320, longitude -1223456780 and altitude 100000 gives one item,
  with 37.765432 as its longitude and as its latitude.
\<close>

theorem gps_raw_candidate_uses_latitude_twice_witness:
  "logItems (newMavlinkMessage
      (newMavlinkMessages UTMConverter_new [(1000000, VFR_HUD \<lparr>groundspeed = Num 2\<rparr>)])
      3000000 (GPS_RAW_INT \<lparr>gps_lat = 377654320, gps_lon = - 1223456780, gps_alt = 100000, fix_type = 3\<rparr>))
   = [\<lparr>time = Num 2, lon = Num 37.765432, lat = Num 37.765432, alt = Num 100, speed = Num 2\<rparr>]"
  using gps_raw_candidate_uses_latitude_twice
    [OF refl, of "[(1000000, VFR_HUD \<lparr>groundspeed = Num 2\<rparr>)]" "\<lparr>gps_lat = 377654320, gps_lon = - 1223456780, gps_alt = 100000, fix_type = 3\<rparr>" 3000000]
  by (simp add: UTMConverter_new_def newMavlinkMessage_def handleVfrHud_def qIsNaN_def Let_def)

text \<open>
  C2. Once a \<^verbatim>\<open>GLOBAL_POSITION_INT\<close> has been processed, in whatever state, no
  \<^verbatim>\<open>GPS_RAW_INT\<close> that comes later appends an item, whatever messages come in
  between and whatever its fix type.
\<close>

theorem raw_gps_never_appends_after_global_position:
  "logItems (newMavlinkMessage
       (newMavlinkMessages (newMavlinkMessage c t0 (GLOBAL_POSITION_INT p)) msgs) t (GPS_RAW_INT g))
   = logItems (newMavlinkMessages (newMavlinkMessage c t0 (GLOBAL_POSITION_INT p)) msgs)"
  by (rule gps_raw_suppressed) (simp add: flag_newMavlinkMessages flag_after_global_position)

text \<open>
  A global position, a HUD message and then a raw fix with a 3D lock at another place:
  the track has the one item of the global position.
\<close>

theorem raw_gps_never_appends_after_global_position_witness:
  "logItems (newMavlinkMessage
       (newMavlinkMessages (newMavlinkMessage UTMConverter_new 1000000 (GLOBAL_POSITION_INT \<lparr>pos_lat = 377654320, pos_lon = - 1223456780, pos_alt = 100000\<rparr>))
          [(2000000, VFR_HUD \<lparr>groundspeed = Num 2\<rparr>)])
       3000000 (GPS_RAW_INT \<lparr>gps_lat = 1, gps_lon = 2, gps_alt = 3, fix_type = 3\<rparr>))
   = [\<lparr>time = Num 0, lon = Num (- 122.345678), lat = Num 37.765432, alt = Num 100,
       speed = Num 0\<rparr>]"
  using raw_gps_never_appends_after_global_position
    [of UTMConverter_new 1000000 "\<lparr>pos_lat = 377654320, pos_lon = - 1223456780, pos_alt = 100000\<rparr>" "[(2000000, VFR_HUD \<lparr>groundspeed = Num 2\<rparr>)]"
      3000000 "\<lparr>gps_lat = 1, gps_lon = 2, gps_alt = 3, fix_type = 3\<rparr>"]
  by (simp add: UTMConverter_new_def newMavlinkMessage_def handleVfrHud_def qIsNaN_def
      handleGlobalPositionInt_def Let_def int32_div_def quint64_div_def)

text \<open>
  C9. A \<^verbatim>\<open>VFR_HUD\<close> message sets the last speed to its ground speed, or to zero when
  that is not-a-number, and changes neither the track nor the flag that a global
  position has been seen; the handler changes no other member at all.
\<close>

theorem vfr_hud_sets_last_speed_only:
  "handleVfrHud c v = c\<lparr>lastSpeed := (if groundspeed v = NaN then Num 0 else groundspeed v)\<rparr>
   \<and> lastSpeed (newMavlinkMessage c t (VFR_HUD v))
       = (if groundspeed v = NaN then Num 0 else groundspeed v)
   \<and> logItems (newMavlinkMessage c t (VFR_HUD v)) = logItems c
   \<and> globalPositionIntMessageAvailable (newMavlinkMessage c t (VFR_HUD v))
       = globalPositionIntMessageAvailable c"
  by (simp add: newMavlinkMessage_def handleVfrHud_def qIsNaN_def Let_def)

theorem vfr_hud_sets_last_speed_only_witness:
  "lastSpeed (newMavlinkMessage UTMConverter_new 7 (VFR_HUD \<lparr>groundspeed = NaN\<rparr>)) = Num 0
   \<and> lastSpeed (newMavlinkMessage UTMConverter_new 7 (VFR_HUD \<lparr>groundspeed = Num 5.5\<rparr>)) = Num 5.5
   \<and> logItems (newMavlinkMessage UTMConverter_new 7 (VFR_HUD \<lparr>groundspeed = Num 5.5\<rparr>)) = []"
  using vfr_hud_sets_last_speed_only [of UTMConverter_new "\<lparr>groundspeed = NaN\<rparr>" 7]
    vfr_hud_sets_last_speed_only [of UTMConverter_new "\<lparr>groundspeed = Num 5.5\<rparr>" 7]
  by (simp add: UTMConverter_new_def)

subsection \<open>The track under deduplication\<close>

lemma adjacent_differ_single: "adjacent_differ [x]"
  by (simp add: adjacent_differ_def)

lemma adjacent_differ_snoc:
  assumes "adjacent_differ xs" and "xs = [] \<or> \<not> compareItem (last xs) x"
  shows "adjacent_differ (xs @ [x])"
  unfolding adjacent_differ_def
proof (intro allI impI)
  fix i
  assume i: "Suc i < length (xs @ [x])"
  show "\<not> compareItem ((xs @ [x]) ! i) ((xs @ [x]) ! Suc i)"
  proof (cases "Suc i < length xs")
    case True
    with assms(1) show ?thesis
      by (simp add: adjacent_differ_def nth_append)
  next
    case False
    with i have eq: "Suc i = length xs" by simp
    then have ne: "xs \<noteq> []" by auto
    from eq have "xs ! i = last xs"
      by (metis ne diff_Suc_1 last_conv_nth)
    with eq ne assms(2) show ?thesis
      by (simp add: nth_append)
  qed
qed

text \<open>Where no field is not-a-number, \<open>compareItem\<close> is equality of the four fields.\<close>

lemma compareItem_no_nan:
  "item_no_nan a \<Longrightarrow> item_no_nan b \<Longrightarrow>
   compareItem a b = (lon a = lon b \<and> lat a = lat b \<and> alt a = alt b \<and> speed a = speed b)"
  by (auto simp: compareItem_def ne_double_def item_no_nan_def)

lemma last_fields_compare:
  assumes "xs \<noteq> []" and "list_all item_no_nan xs" and "item_no_nan x"
    and "lon (last xs) = lon x" and "lat (last xs) = lat x"
    and "alt (last xs) = alt x" and "speed (last xs) = speed x"
  shows "compareItem (last xs) x"
proof -
  from assms(1,2) have "item_no_nan (last xs)"
    by (simp add: list_all_iff)
  with assms show ?thesis
    by (simp add: compareItem_no_nan)
qed

lemma track_inv_new: "track_inv UTMConverter_new"
  by (simp add: track_inv_def UTMConverter_new_def adjacent_differ_def)

lemma track_inv_handleGpsRawInt: "track_inv c \<Longrightarrow> track_inv (handleGpsRawInt c g)"
  by (auto simp: track_inv_def handleGpsRawInt_def Let_def item_no_nan_def int32_div_def
      adjacent_differ_single intro: adjacent_differ_snoc)

lemma track_inv_handleGlobalPositionInt:
  "track_inv c \<Longrightarrow> track_inv (handleGlobalPositionInt c p)"
  by (auto simp: track_inv_def handleGlobalPositionInt_def Let_def item_no_nan_def int32_div_def
      adjacent_differ_single intro: adjacent_differ_snoc)

lemma track_inv_handleVfrHud: "track_inv c \<Longrightarrow> track_inv (handleVfrHud c v)"
  by (simp add: track_inv_def handleVfrHud_def qIsNaN_def)

lemma track_inv_newMavlinkMessage: "track_inv c \<Longrightarrow> track_inv (newMavlinkMessage c t m)"
proof -
  assume inv: "track_inv c"
  let ?c = "(if startDTG c = 0 then c\<lparr>startDTG := t\<rparr> else c)\<lparr>curTimeUSecs := t\<rparr>"
  from inv have "track_inv ?c" by (simp add: track_inv_def)
  then show ?thesis
    by (cases m)
       (simp_all add: newMavlinkMessage_def Let_def track_inv_handleGpsRawInt
          track_inv_handleGlobalPositionInt track_inv_handleVfrHud del: if_split split del: if_split)
qed

lemma track_inv_newMavlinkMessages:
  "track_inv c \<Longrightarrow> track_inv (newMavlinkMessages c msgs)"
  by (induction c msgs rule: newMavlinkMessages.induct) (simp_all add: track_inv_newMavlinkMessage)

text \<open>The second of two equal global positions in a row appends nothing.\<close>

lemma global_position_repeated:
  assumes "track_inv c"
  shows "logItems (newMavlinkMessage (newMavlinkMessage c t1 (GLOBAL_POSITION_INT p)) t2
                     (GLOBAL_POSITION_INT p))
         = logItems (newMavlinkMessage c t1 (GLOBAL_POSITION_INT p))"
proof -
  let ?c1 = "newMavlinkMessage c t1 (GLOBAL_POSITION_INT p)"
  have ne: "logItems ?c1 \<noteq> []"
    by (simp add: newMavlinkMessage_def handleGlobalPositionInt_def Let_def)
  have sp: "lastSpeed ?c1 = lastSpeed c"
    by (simp add: newMavlinkMessage_def handleGlobalPositionInt_def Let_def)
  from assms have nn: "lastSpeed c \<noteq> NaN" by (simp add: track_inv_def)
  have l: "lon (last (logItems ?c1)) = int32_div (pos_lon p) 10000000
         \<and> lat (last (logItems ?c1)) = int32_div (pos_lat p) 10000000
         \<and> alt (last (logItems ?c1)) = int32_div (pos_alt p) 1000
         \<and> speed (last (logItems ?c1)) = lastSpeed c"
    using nn
    by (auto simp: newMavlinkMessage_def handleGlobalPositionInt_def Let_def compareItem_def
        ne_double_def int32_div_def)
  show ?thesis
    using ne sp nn l
    by (simp add: newMavlinkMessage_def [of ?c1]
        handleGlobalPositionInt_def [of "_ \<lparr>curTimeUSecs := t2\<rparr>"]
        Let_def compareItem_def ne_double_def int32_div_def)
qed

text \<open>
  C3. Let \<open>c\<close> be the converter after any sequence of messages. No two adjacent items
  of its track agree in all of \<open>lon\<close>, \<open>lat\<close>, \<open>alt\<close> and \<open>speed\<close>. A global position,
  or a raw fix, whose candidate agrees with the last item in these four fields appends
  nothing, whatever its time \<open>t\<close>. The second of two global positions with the same
  fields, one right after the other, appends nothing; fed to a new converter the two
  give a track of exactly one item.
\<close>

theorem dedup_invariant:
  assumes c: "c = newMavlinkMessages UTMConverter_new msgs"
  shows "(\<forall>i. Suc i < length (logItems c) \<longrightarrow>
            \<not> (lon (logItems c ! i) = lon (logItems c ! Suc i)
               \<and> lat (logItems c ! i) = lat (logItems c ! Suc i)
               \<and> alt (logItems c ! i) = alt (logItems c ! Suc i)
               \<and> speed (logItems c ! i) = speed (logItems c ! Suc i)))
       \<and> (logItems c \<noteq> []
            \<and> lon (last (logItems c)) = int32_div (pos_lon p) 10000000
            \<and> lat (last (logItems c)) = int32_div (pos_lat p) 10000000
            \<and> alt (last (logItems c)) = int32_div (pos_alt p) 1000
            \<and> speed (last (logItems c)) = lastSpeed c
          \<longrightarrow> logItems (newMavlinkMessage c t (GLOBAL_POSITION_INT p)) = logItems c)
       \<and> (logItems c \<noteq> []
            \<and> lon (last (logItems c)) = int32_div (gps_lat g) 10000000
            \<and> lat (last (logItems c)) = int32_div (gps_lat g) 10000000
            \<and> alt (last (logItems c)) = int32_div (gps_alt g) 1000
            \<and> speed (last (logItems c)) = lastSpeed c
          \<longrightarrow> logItems (newMavlinkMessage c t (GPS_RAW_INT g)) = logItems c)
       \<and> logItems (newMavlinkMessage (newMavlinkMessage c t1 (GLOBAL_POSITION_INT p)) t2
                     (GLOBAL_POSITION_INT p))
           = logItems (newMavlinkMessage c t1 (GLOBAL_POSITION_INT p))
       \<and> length (logItems (newMavlinkMessages UTMConverter_new
                     [(t1, GLOBAL_POSITION_INT p), (t2, GLOBAL_POSITION_INT p)])) = 1"
proof -
  have inv: "track_inv c"
    unfolding c by (rule track_inv_newMavlinkMessages) (rule track_inv_new)
  then have nn: "lastSpeed c \<noteq> NaN" and ok: "list_all item_no_nan (logItems c)"
    and adj: "adjacent_differ (logItems c)"
    by (simp_all add: track_inv_def)
  have a: "\<forall>i. Suc i < length (logItems c) \<longrightarrow>
            \<not> (lon (logItems c ! i) = lon (logItems c ! Suc i)
               \<and> lat (logItems c ! i) = lat (logItems c ! Suc i)
               \<and> alt (logItems c ! i) = alt (logItems c ! Suc i)
               \<and> speed (logItems c ! i) = speed (logItems c ! Suc i))"
  proof (intro allI impI)
    fix i
    assume i: "Suc i < length (logItems c)"
    then have "item_no_nan (logItems c ! i)" and "item_no_nan (logItems c ! Suc i)"
      using ok by (simp_all add: list_all_length)
    moreover from adj i have "\<not> compareItem (logItems c ! i) (logItems c ! Suc i)"
      by (simp add: adjacent_differ_def)
    ultimately show "\<not> (lon (logItems c ! i) = lon (logItems c ! Suc i)
               \<and> lat (logItems c ! i) = lat (logItems c ! Suc i)
               \<and> alt (logItems c ! i) = alt (logItems c ! Suc i)
               \<and> speed (logItems c ! i) = speed (logItems c ! Suc i))"
      by (simp add: compareItem_no_nan)
  qed
  have b: "logItems (newMavlinkMessage c t (GLOBAL_POSITION_INT p)) = logItems c"
    if "logItems c \<noteq> []"
      and "lon (last (logItems c)) = int32_div (pos_lon p) 10000000"
      and "lat (last (logItems c)) = int32_div (pos_lat p) 10000000"
      and "alt (last (logItems c)) = int32_div (pos_alt p) 1000"
      and "speed (last (logItems c)) = lastSpeed c"
  proof -
    have "compareItem (last (logItems c))
            \<lparr>time = tm, lon = int32_div (pos_lon p) 10000000, lat = int32_div (pos_lat p) 10000000,
             alt = int32_div (pos_alt p) 1000, speed = lastSpeed c\<rparr>" for tm
      using that ok nn
      by (intro last_fields_compare) (simp_all add: item_no_nan_def int32_div_def)
    with that(1) show ?thesis
      by (simp add: newMavlinkMessage_def handleGlobalPositionInt_def Let_def)
  qed
  have b': "logItems (newMavlinkMessage c t (GPS_RAW_INT g)) = logItems c"
    if "logItems c \<noteq> []"
      and "lon (last (logItems c)) = int32_div (gps_lat g) 10000000"
      and "lat (last (logItems c)) = int32_div (gps_lat g) 10000000"
      and "alt (last (logItems c)) = int32_div (gps_alt g) 1000"
      and "speed (last (logItems c)) = lastSpeed c"
  proof -
    have "compareItem (last (logItems c))
            \<lparr>time = tm, lon = int32_div (gps_lat g) 10000000, lat = int32_div (gps_lat g) 10000000,
             alt = int32_div (gps_alt g) 1000, speed = lastSpeed c\<rparr>" for tm
      using that ok nn
      by (intro last_fields_compare) (simp_all add: item_no_nan_def int32_div_def)
    with that(1) show ?thesis
      by (simp add: newMavlinkMessage_def handleGpsRawInt_def Let_def)
  qed
  have d: "length (logItems (newMavlinkMessages UTMConverter_new
                     [(t1, GLOBAL_POSITION_INT p), (t2, GLOBAL_POSITION_INT p)])) = 1"
  proof -
    have "length (logItems (newMavlinkMessage UTMConverter_new t1 (GLOBAL_POSITION_INT p))) = 1"
      by (simp add: newMavlinkMessage_def handleGlobalPositionInt_def Let_def UTMConverter_new_def)
    with global_position_repeated [OF track_inv_new, of t1 p t2] show ?thesis
      by simp
  qed
  from a b b' global_position_repeated [OF inv] d show ?thesis
    by blast
qed

text \<open>
  Two equal global positions two seconds apart and a third, one unit of latitude away:
  two items, which differ in \<open>lat\<close>; the first two messages alone give one item.
\<close>

theorem dedup_invariant_witness:
  "length (logItems (newMavlinkMessages UTMConverter_new
      [(10, GLOBAL_POSITION_INT \<lparr>pos_lat = 377654320, pos_lon = - 1223456780, pos_alt = 100000\<rparr>), (2000010, GLOBAL_POSITION_INT \<lparr>pos_lat = 377654320, pos_lon = - 1223456780, pos_alt = 100000\<rparr>),
       (4000010, GLOBAL_POSITION_INT \<lparr>pos_lat = 377654321, pos_lon = - 1223456780, pos_alt = 100000\<rparr>)])) = 2
   \<and> lat (logItems (newMavlinkMessages UTMConverter_new
      [(10, GLOBAL_POSITION_INT \<lparr>pos_lat = 377654320, pos_lon = - 1223456780, pos_alt = 100000\<rparr>), (2000010, GLOBAL_POSITION_INT \<lparr>pos_lat = 377654320, pos_lon = - 1223456780, pos_alt = 100000\<rparr>),
       (4000010, GLOBAL_POSITION_INT \<lparr>pos_lat = 377654321, pos_lon = - 1223456780, pos_alt = 100000\<rparr>)]) ! 0)
     \<noteq> lat (logItems (newMavlinkMessages UTMConverter_new
      [(10, GLOBAL_POSITION_INT \<lparr>pos_lat = 377654320, pos_lon = - 1223456780, pos_alt = 100000\<rparr>), (2000010, GLOBAL_POSITION_INT \<lparr>pos_lat = 377654320, pos_lon = - 1223456780, pos_alt = 100000\<rparr>),
       (4000010, GLOBAL_POSITION_INT \<lparr>pos_lat = 377654321, pos_lon = - 1223456780, pos_alt = 100000\<rparr>)]) ! Suc 0)
   \<and> length (logItems (newMavlinkMessages UTMConverter_new
      [(10, GLOBAL_POSITION_INT \<lparr>pos_lat = 377654320, pos_lon = - 1223456780, pos_alt = 100000\<rparr>), (2000010, GLOBAL_POSITION_INT \<lparr>pos_lat = 377654320, pos_lon = - 1223456780, pos_alt = 100000\<rparr>)])) = 1"
  using dedup_invariant [OF refl, of
      "[(10, GLOBAL_POSITION_INT \<lparr>pos_lat = 377654320, pos_lon = - 1223456780, pos_alt = 100000\<rparr>), (2000010, GLOBAL_POSITION_INT \<lparr>pos_lat = 377654320, pos_lon = - 1223456780, pos_alt = 100000\<rparr>),
        (4000010, GLOBAL_POSITION_INT \<lparr>pos_lat = 377654321, pos_lon = - 1223456780, pos_alt = 100000\<rparr>)]"
      "\<lparr>pos_lat = 377654320, pos_lon = - 1223456780, pos_alt = 100000\<rparr>" 0 "\<lparr>gps_lat = 377654320, gps_lon = - 1223456780, gps_alt = 100000, fix_type = 3\<rparr>" 10 2000010]
  by (simp add: newMavlinkMessage_def handleGlobalPositionInt_def Let_def UTMConverter_new_def
      compareItem_def ne_double_def int32_div_def quint64_div_def)

subsection \<open>The start timestamp and the first item\<close>




text \<open>The track only grows at its end.\<close>

lemma logItems_prefix:
  "\<exists>ys. logItems (newMavlinkMessage c t m) = logItems c @ ys"
  by (cases m)
     (simp_all add: newMavlinkMessage_def handleGlobalPositionInt_def handleGpsRawInt_def
        handleVfrHud_def Let_def)

lemma logItems_prefix_messages:
  "\<exists>ys. logItems (newMavlinkMessages c msgs) = logItems c @ ys"
proof (induction c msgs rule: newMavlinkMessages.induct)
  case (1 c)
  then show ?case by simp
next
  case (2 c t message rest)
  from logItems_prefix [of c t message] obtain ys
    where a: "logItems (newMavlinkMessage c t message) = logItems c @ ys" by blast
  from 2 obtain zs
    where "logItems (newMavlinkMessages (newMavlinkMessage c t message) rest)
           = logItems (newMavlinkMessage c t message) @ zs" by blast
  with a show ?case by simp
qed

lemma hd_kept_messages:
  assumes "logItems c \<noteq> []"
  shows "logItems (newMavlinkMessages c msgs) \<noteq> []
       \<and> hd (logItems (newMavlinkMessages c msgs)) = hd (logItems c)"
  using logItems_prefix_messages [of c msgs] assms by auto

text \<open>
  C5, as the spec states it, fails: a HUD message at time 1000000 sets the start
  timestamp, and the global position at time 3000000 gives the first item, whose
  \<open>time\<close> is 2 and not 0.
\<close>

theorem first_sample_elapsed_counterexample:
  "logItems (newMavlinkMessages UTMConverter_new
      [(1000000, VFR_HUD \<lparr>groundspeed = Num 5.5\<rparr>), (3000000, GLOBAL_POSITION_INT \<lparr>pos_lat = 377654320, pos_lon = - 1223456780, pos_alt = 100000\<rparr>)])
   = [\<lparr>time = Num 2, lon = Num (- 122.345678), lat = Num 37.765432, alt = Num 100,
       speed = Num 5.5\<rparr>]
   \<and> time (hd (logItems (newMavlinkMessages UTMConverter_new
      [(1000000, VFR_HUD \<lparr>groundspeed = Num 5.5\<rparr>), (3000000, GLOBAL_POSITION_INT \<lparr>pos_lat = 377654320, pos_lon = - 1223456780, pos_alt = 100000\<rparr>)])))
     \<noteq> Num 0"
  by (simp add: newMavlinkMessage_def handleGlobalPositionInt_def handleVfrHud_def qIsNaN_def
      Let_def UTMConverter_new_def int32_div_def quint64_div_def)

text \<open>
  C5, amended. When the first message a new converter processes is a
  \<^verbatim>\<open>GLOBAL_POSITION_INT\<close>, or a \<^verbatim>\<open>GPS_RAW_INT\<close> with a fix type of at least 3, the track
  is not empty after any further messages, and the \<open>time\<close> of its first item is 0.
\<close>

theorem first_sample_elapsed_zero:
  assumes "m = GLOBAL_POSITION_INT p \<or> (m = GPS_RAW_INT g \<and> 3 \<le> unat (fix_type g))"
  shows "logItems (newMavlinkMessages UTMConverter_new ((t, m) # rest)) \<noteq> []
       \<and> time (hd (logItems (newMavlinkMessages UTMConverter_new ((t, m) # rest)))) = Num 0"
proof -
  let ?c = "newMavlinkMessage UTMConverter_new t m"
  have "logItems ?c \<noteq> [] \<and> time (hd (logItems ?c)) = Num 0"
    using assms
    by (auto simp: newMavlinkMessage_def handleGlobalPositionInt_def handleGpsRawInt_def Let_def
        UTMConverter_new_def quint64_div_def GPS_FIX_TYPE_3D_FIX_def word_le_nat_alt)
  with hd_kept_messages [of ?c rest] show ?thesis
    by simp
qed

theorem first_sample_elapsed_zero_witness:
  "time (hd (logItems (newMavlinkMessages UTMConverter_new
      [(1000000, GLOBAL_POSITION_INT \<lparr>pos_lat = 377654320, pos_lon = - 1223456780, pos_alt = 100000\<rparr>), (3000000, VFR_HUD \<lparr>groundspeed = Num 5.5\<rparr>)])))
     = Num 0
   \<and> time (hd (logItems (newMavlinkMessages UTMConverter_new [(1000000, GPS_RAW_INT \<lparr>gps_lat = 377654320, gps_lon = - 1223456780, gps_alt = 100000, fix_type = 3\<rparr>)])))
     = Num 0"
  using
    first_sample_elapsed_zero
      [of "GLOBAL_POSITION_INT \<lparr>pos_lat = 377654320, pos_lon = - 1223456780, pos_alt = 100000\<rparr>" "\<lparr>pos_lat = 377654320, pos_lon = - 1223456780, pos_alt = 100000\<rparr>" "\<lparr>gps_lat = 377654320, gps_lon = - 1223456780, gps_alt = 100000, fix_type = 3\<rparr>" 1000000
        "[(3000000, VFR_HUD \<lparr>groundspeed = Num 5.5\<rparr>)]"]
    first_sample_elapsed_zero [of "GPS_RAW_INT \<lparr>gps_lat = 377654320, gps_lon = - 1223456780, gps_alt = 100000, fix_type = 3\<rparr>" "\<lparr>pos_lat = 377654320, pos_lon = - 1223456780, pos_alt = 100000\<rparr>" "\<lparr>gps_lat = 377654320, gps_lon = - 1223456780, gps_alt = 100000, fix_type = 3\<rparr>" 1000000 "[]"]
  by simp




subsection \<open>The read loop\<close>

lemma newMavlinkMessage_overwrites_time:
  "newMavlinkMessage (c\<lparr>curTimeUSecs := x\<rparr>) t m = newMavlinkMessage c t m"
  by (cases m)
     (simp_all add: newMavlinkMessage_def handleGlobalPositionInt_def handleGpsRawInt_def
        handleVfrHud_def Let_def)

lemma newMavlinkMessages_modulo_time:
  "(newMavlinkMessages (c\<lparr>curTimeUSecs := x\<rparr>) msgs)\<lparr>curTimeUSecs := 0\<rparr>
   = (newMavlinkMessages c msgs)\<lparr>curTimeUSecs := 0\<rparr>"
  by (cases msgs) (auto simp: newMavlinkMessage_overwrites_time)

text \<open>
  What the loop leaves in the converter is what the interpreter leaves after some
  sequence of messages, up to the member \<open>curTimeUSecs\<close>: the properties of message
  sequences above hold for the tracks of conversions.
\<close>

lemma parseLog_runs_the_interpreter:
  "\<exists>msgs. (fst (parseLog W c ps k f))\<lparr>curTimeUSecs := 0\<rparr>
          = (newMavlinkMessages c msgs)\<lparr>curTimeUSecs := 0\<rparr>"
proof (induction W c ps k f rule: parseLog.induct)
  case (1 W c ps k logFile)
  obtain t mo ps' k' f' where r: "readNextMavlinkMessage W ps k logFile = (t, mo, ps', k', f')"
    by (metis prod_cases5)
  show ?case
  proof (cases "t = 0 \<or> mo = None")
    case True
    with r have "fst (parseLog W c ps k logFile) = c"
      by (auto simp: parseLog.simps [of W c ps k logFile])
    then have "(fst (parseLog W c ps k logFile))\<lparr>curTimeUSecs := 0\<rparr>
          = (newMavlinkMessages c [])\<lparr>curTimeUSecs := 0\<rparr>"
      by simp
    then show ?thesis by blast
  next
    case False
    then obtain m where m: "mo = Some m" and t: "t \<noteq> 0" by auto
    let ?c' = "(newMavlinkMessage c (curTimeUSecs c) m)\<lparr>curTimeUSecs := t\<rparr>"
    from r m t have step: "parseLog W c ps k logFile = parseLog W ?c' ps' k' f'"
      by (simp add: parseLog.simps [of W c ps k logFile])
    from "1.IH" [of t "(mo, ps', k', f')" mo "(ps', k', f')" ps' "(k', f')" k' f' m] r m t
    obtain msgs where "(fst (parseLog W ?c' ps' k' f'))\<lparr>curTimeUSecs := 0\<rparr>
          = (newMavlinkMessages ?c' msgs)\<lparr>curTimeUSecs := 0\<rparr>"
      by auto
    with step have "(fst (parseLog W c ps k logFile))\<lparr>curTimeUSecs := 0\<rparr>
          = (newMavlinkMessages c ((curTimeUSecs c, m) # msgs))\<lparr>curTimeUSecs := 0\<rparr>"
      by (simp add: newMavlinkMessages_modulo_time)
    then show ?thesis by blast
  qed
qed

lemma track_inv_time: "track_inv (c\<lparr>curTimeUSecs := x\<rparr>) = track_inv c"
  by (simp add: track_inv_def)

lemma track_inv_parseLog:
  assumes "track_inv c"
  shows "track_inv (fst (parseLog W c ps k f))"
proof -
  from parseLog_runs_the_interpreter [of W c ps k f] obtain msgs
    where eq: "(fst (parseLog W c ps k f))\<lparr>curTimeUSecs := 0\<rparr>
               = (newMavlinkMessages c msgs)\<lparr>curTimeUSecs := 0\<rparr>"
    by blast
  from assms have "track_inv ((newMavlinkMessages c msgs)\<lparr>curTimeUSecs := 0\<rparr>)"
    by (simp only: track_inv_time track_inv_newMavlinkMessages)
  with eq have "track_inv ((fst (parseLog W c ps k f))\<lparr>curTimeUSecs := 0\<rparr>)"
    by simp
  then show ?thesis
    by (simp only: track_inv_time)
qed

text \<open>
  C10. When \<open>readNextMavlinkMessage\<close> has decoded a complete message \<open>m\<close> and the
  timestamp read after it is 0, the loop ends there, at whatever point of the log:
  the converter is as it was before the read, as it is when nothing is left to read,
  and \<open>m\<close> is not passed to the interpreter. With any other timestamp \<open>m\<close> is passed
  on and the loop goes on.
\<close>

theorem zero_timestamp_ends_the_log:
  assumes "readNextMavlinkMessage W ps k logFile = (t, Some m, ps', k', logFile')"
  shows "(t = 0 \<longrightarrow> parseLog W c ps k logFile = (c, ps')
                 \<and> fst (parseLog W c ps k logFile) = fst (parseLog W c ps k []))
       \<and> (t \<noteq> 0 \<longrightarrow> parseLog W c ps k logFile
                 = parseLog W ((newMavlinkMessage c (curTimeUSecs c) m)\<lparr>curTimeUSecs := t\<rparr>)
                     ps' k' logFile')"
  using assms by (simp add: parseLog.simps [of W c ps k logFile] parseLog.simps [of W c ps k "[]"])

lemma example_timestamp_at_end: "readTimestamp (example_world f ch flt) k [] = 0"
  by (simp add: example_world_def readTimestamp_def parseTimestamp_def constData8_def
        load_quint64_def qFromBigEndian_def be64_def qbswap_def Let_def)

lemma example_timestamp_2022:
  "readTimestamp (example_world f ch flt) k ([0, 5, 0xE0, 0xF3, 0x6D, 0x3C, 0xB0, 0] @ rest)
   = 0x0005E0F36D3CB000"
  by (simp add: example_world_def readTimestamp_def parseTimestamp_def constData8_def
        load_quint64_def qFromBigEndian_def be64_def qbswap_def Let_def)

lemma example_parse_char:
  "mavlink_parse_char (example_world f ch flt) ps b = (ps, Some (byte_message b))"
  by (simp add: example_world_def)

text \<open>
  In the small world a global position is the last byte of the log. The file ends
  there, the eight bytes read past the empty array are zero, and the position is
  dropped: the track stays empty. Followed by a timestamp of 2022 the same message
  gives an item.
\<close>

theorem zero_timestamp_ends_the_log_witness:
  "readNextMavlinkMessage (example_world [] 1 False) () 0 [1]
     = (0, Some (byte_message 1), (), Suc 0, [])
   \<and> logItems (fst (parseLog (example_world [] 1 False) UTMConverter_new () 0 [1])) = []
   \<and> logItems (newMavlinkMessage UTMConverter_new 0 (byte_message 1)) \<noteq> []
   \<and> logItems (fst (parseLog (example_world [] 1 False) UTMConverter_new () 0
        [1, 0, 5, 0xE0, 0xF3, 0x6D, 0x3C, 0xB0, 0])) \<noteq> []"
proof -
  let ?W = "example_world [] 1 False"
  have r: "readNextMavlinkMessage ?W () 0 [1] = (0, Some (byte_message 1), (), Suc 0, [])"
    by (simp add: example_timestamp_at_end example_parse_char)
  have r2: "readNextMavlinkMessage ?W () 0 [1, 0, 5, 0xE0, 0xF3, 0x6D, 0x3C, 0xB0, 0]
              = (0x0005E0F36D3CB000, Some (byte_message 1), (), Suc 0, [])"
    using example_timestamp_2022 [of "[]" 1 False 0 "[]"]
    by (simp add: example_parse_char)
  have e: "parseLog ?W c () (Suc 0) [] = (c, ())" for c
    by (simp add: parseLog.simps [of _ _ _ _ "[]"])
  have m: "logItems (newMavlinkMessage UTMConverter_new 0 (byte_message 1)) \<noteq> []"
    by (simp add: UTMConverter_new_def byte_message_def newMavlinkMessage_def
        handleGlobalPositionInt_def Let_def)
  from zero_timestamp_ends_the_log [OF r, of UTMConverter_new]
  have a: "logItems (fst (parseLog ?W UTMConverter_new () 0 [1])) = []"
    by (simp add: UTMConverter_new_def)
  from zero_timestamp_ends_the_log [OF r2, of UTMConverter_new]
  have "parseLog ?W UTMConverter_new () 0 [1, 0, 5, 0xE0, 0xF3, 0x6D, 0x3C, 0xB0, 0]
        = ((newMavlinkMessage UTMConverter_new (curTimeUSecs UTMConverter_new) (byte_message 1))
             \<lparr>curTimeUSecs := 0x0005E0F36D3CB000\<rparr>, ())"
    by (simp add: e)
  with m have b: "logItems (fst (parseLog ?W UTMConverter_new () 0
        [1, 0, 5, 0xE0, 0xF3, 0x6D, 0x3C, 0xB0, 0])) \<noteq> []"
    by (simp add: UTMConverter_new_def)
  from r a m b show ?thesis by blast
qed

subsection \<open>The conversion as a whole\<close>

lemma example_files:
  "reserveMavlinkChannel (example_world f ch flt) = ch"
  "readable (example_world f ch flt) name = (if name = ''in.tlog'' then Some f else None)"
  "creatable (example_world f ch flt) name = (name = ''out.json'')"
  "writeFault (example_world f ch flt) = flt"
  by (simp_all add: example_world_def)

lemma example_empty_log:
  "convertTelemetryFile (example_world [] 1 flt) UTMConverter_new () ''in.tlog'' ''out.json''
   = (True, UTMConverter_new\<lparr>mavlinkChannel := 1\<rparr>, (), [SrcOpen, DstOpen, DstClose, DstRemove])"
  by (simp add: convertTelemetryFile_def Let_def example_files example_timestamp_at_end
      UTMConverter_new_def parseLog.simps [of _ _ _ _ "[]"])

lemma example_parseLog_end: "parseLog (example_world f ch flt) c () k [] = (c, ())"
  by (simp add: parseLog.simps [of _ _ _ _ "[]"])

text \<open>
  A log of a timestamp and one global position, and nothing after it: with zero past
  the end the position is dropped and the destination removed.
\<close>

lemma example_last_message_dropped:
  "convertTelemetryFile (example_world [0, 5, 0xE0, 0xF3, 0x6D, 0x3C, 0xB0, 0, 1] 1 False)
     UTMConverter_new () ''in.tlog'' ''out.json''
   = (True, UTMConverter_new\<lparr>mavlinkChannel := 1, curTimeUSecs := 0x0005E0F36D3CB000\<rparr>, (),
      [SrcOpen, DstOpen, DstClose, DstRemove])"
proof -
  let ?W = "example_world [0, 5, 0xE0, 0xF3, 0x6D, 0x3C, 0xB0, 0, 1] 1 False"
  have t0: "readTimestamp ?W 0 [0, 5, 0xE0, 0xF3, 0x6D, 0x3C, 0xB0, 0, 1] = 0x0005E0F36D3CB000"
    using example_timestamp_2022 [of _ 1 False 0 "[1]"] by simp
  have r: "readNextMavlinkMessage ?W () 1 [1] = (0, Some (byte_message 1), (), Suc 1, [])"
    by (simp add: example_timestamp_at_end example_parse_char)
  have "parseLog ?W c () 1 [1] = (c, ())" for c
    using r by (simp add: parseLog.simps [of _ _ _ _ "[1]"])
  with t0 show ?thesis
    by (simp add: convertTelemetryFile_def Let_def example_files UTMConverter_new_def)
qed

text \<open>The same log with a timestamp after the position: one item, written out.\<close>

lemma example_one_position:
  "convertTelemetryFile
     (example_world [0, 5, 0xE0, 0xF3, 0x6D, 0x3C, 0xB0, 0, 1, 0, 5, 0xE0, 0xF3, 0x6D, 0x3C, 0xB0, 0]
        1 False)
     UTMConverter_new () ''in.tlog'' ''out.json''
   = (True,
      \<lparr>curTimeUSecs = 0x0005E0F36D3CB000, startDTG = 0x0005E0F36D3CB000, lastSpeed = Num 0,
       gpsRawIntMessageAvailable = False, globalPositionIntMessageAvailable = True,
       mavlinkChannel = 1,
       logItems = [\<lparr>time = Num 0, lon = Num (- 122.345678), lat = Num 37.765432,
                     alt = Num 100, speed = Num 0\<rparr>]\<rparr>,
      (),
      [SrcOpen, DstOpen, DstWrite LoggingHeader,
       DstWrite (LoggingItem \<lparr>time = Num 0, lon = Num (- 122.345678), lat = Num 37.765432,
                     alt = Num 100, speed = Num 0\<rparr> False),
       DstWrite LoggingKeys, DstWrite (LoggingStartDTG 1654710997921),
       DstWrite (LoggingFooter ''out.json''), DstClose])"
proof -
  let ?f = "[0, 5, 0xE0, 0xF3, 0x6D, 0x3C, 0xB0, 0, 1, 0, 5, 0xE0, 0xF3, 0x6D, 0x3C, 0xB0, 0]
              :: 8 word list"
  let ?W = "example_world ?f 1 False"
  have t0: "readTimestamp ?W 0 ?f = 0x0005E0F36D3CB000"
    using example_timestamp_2022 [of _ 1 False 0 "[1, 0, 5, 0xE0, 0xF3, 0x6D, 0x3C, 0xB0, 0]"]
    by simp
  have r: "readNextMavlinkMessage ?W () (Suc 0) [1, 0, 5, 0xE0, 0xF3, 0x6D, 0x3C, 0xB0, 0]
           = (0x0005E0F36D3CB000, Some (byte_message 1), (), Suc (Suc 0), [])"
    using example_timestamp_2022 [of _ 1 False "Suc 0" "[]"]
    by (simp add: example_parse_char)
  have p: "parseLog ?W c () (Suc 0) [1, 0, 5, 0xE0, 0xF3, 0x6D, 0x3C, 0xB0, 0]
        = ((newMavlinkMessage c (curTimeUSecs c) (byte_message 1))
             \<lparr>curTimeUSecs := 0x0005E0F36D3CB000\<rparr>, ())" for c
    using r
    by (simp add: parseLog.simps [of _ _ _ _ "[1, 0, 5, 0xE0, 0xF3, 0x6D, 0x3C, 0xB0, 0]"]
        example_parseLog_end)
  show ?thesis
    by (simp add: convertTelemetryFile_def Let_def example_files UTMConverter_new_def t0 p
        byte_message_def newMavlinkMessage_def handleGlobalPositionInt_def int32_div_def
        quint64_div_def writeItems_def dstWrite_def)
qed

text \<open>A conversion keeps the track free of adjacent duplicates.\<close>

lemma track_inv_convertTelemetryFile:
  assumes "track_inv c"
  shows "track_inv (fst (snd (convertTelemetryFile W c ps srcFilename dstFilename)))"
proof -
  have a: "track_inv (c\<lparr>mavlinkChannel := x\<rparr>)" for x
    using assms by (simp add: track_inv_def)
  have b: "track_inv (c\<lparr>curTimeUSecs := y\<rparr>)"
    "track_inv (c\<lparr>mavlinkChannel := x, curTimeUSecs := y\<rparr>)" for x y
    using assms by (simp_all add: track_inv_def)
  show ?thesis
    using assms a b track_inv_parseLog [of _ W ps 1]
    by (auto simp: convertTelemetryFile_def Let_def split: option.splits prod.splits
        dest!: arg_cong [where f = fst])
qed

text \<open>
  C7. \<open>convertTelemetryFile\<close> returns false exactly when no channel is held and none
  can be reserved, or the source cannot be opened, or the destination cannot be
  created. In every other case it returns true: whatever the log holds, whether or not
  the track is empty, and whether or not the writes to the destination fail.
\<close>

theorem convert_returns_false_exactly:
  "fst (convertTelemetryFile W c ps srcFilename dstFilename) = False \<longleftrightarrow>
     (mavlinkChannel c = 0 \<and> reserveMavlinkChannel W = 0)
     \<or> readable W srcFilename = None
     \<or> \<not> creatable W dstFilename"
  by (auto simp: convertTelemetryFile_def Let_def split: option.splits prod.splits)

text \<open>
  No channel, a source that is not there, a destination that cannot be created: false
  each time. An empty log and a destination whose writes fail: true.
\<close>

theorem convert_returns_false_exactly_witness:
  "fst (convertTelemetryFile (example_world [] 0 False) UTMConverter_new ()
          ''in.tlog'' ''out.json'') = False
   \<and> fst (convertTelemetryFile (example_world [] 1 False) UTMConverter_new ()
          ''no.tlog'' ''out.json'') = False
   \<and> fst (convertTelemetryFile (example_world [] 1 False) UTMConverter_new ()
          ''in.tlog'' ''no.json'') = False
   \<and> fst (convertTelemetryFile (example_world [] 1 True) UTMConverter_new ()
          ''in.tlog'' ''out.json'') = True"
  using
    convert_returns_false_exactly
      [of "example_world [] 0 False" UTMConverter_new "()" "''in.tlog''" "''out.json''"]
    convert_returns_false_exactly
      [of "example_world [] 1 False" UTMConverter_new "()" "''no.tlog''" "''out.json''"]
    convert_returns_false_exactly
      [of "example_world [] 1 False" UTMConverter_new "()" "''in.tlog''" "''no.json''"]
    convert_returns_false_exactly
      [of "example_world [] 1 True" UTMConverter_new "()" "''in.tlog''" "''out.json''"]
  by (simp add: example_files UTMConverter_new_def)

text \<open>
  C6. When the track is empty after \<open>convertTelemetryFile\<close>, nothing has been written
  to the destination. If the call returned true, its effects on the files are exactly:
  the source opened, the destination opened, closed and then removed. If it returned
  false, the destination was never opened.
\<close>

theorem empty_track_removes_destination:
  assumes "convertTelemetryFile W c ps srcFilename dstFilename = (ok, c', ps', ops)"
    and "logItems c' = []"
  shows "(\<forall>data. DstWrite data \<notin> set ops)
       \<and> (ok \<longrightarrow> ops = [SrcOpen, DstOpen, DstClose, DstRemove])
       \<and> (\<not> ok \<longrightarrow> DstOpen \<notin> set ops)"
  using assms
  by (auto simp: convertTelemetryFile_def Let_def split: option.splits prod.splits if_splits)

theorem empty_track_removes_destination_witness:
  "convertTelemetryFile (example_world [] 1 False) UTMConverter_new () ''in.tlog'' ''out.json''
   = (True, UTMConverter_new\<lparr>mavlinkChannel := 1\<rparr>, (), [SrcOpen, DstOpen, DstClose, DstRemove])
   \<and> DstWrite LoggingHeader \<notin> set [SrcOpen, DstOpen, DstClose, DstRemove]"
  using empty_track_removes_destination [OF example_empty_log [of False]]
  by (simp add: example_empty_log)

end
